theory Spec2Isabelle
  imports Main
begin

section \<open>Strings, runes and the library functions the parser calls\<close>

text \<open>
  A Go string is a sequence of bytes: \<^typ>\<open>string\<close>, with \<open>len\<close> as \<^const>\<open>length\<close>.
  A rune is a Unicode code point, an integer as in Go (\<open>int32\<close>; no rune here leaves
  its range). Bytes are read as integers from 0 to 255.
\<close>

type_synonym rune = int

definition ru :: "char \<Rightarrow> rune" where
  \<comment> \<open>the rune constant written as a character literal in the source\<close>
  "ru c = of_char c"

definition RuneError :: rune where
  "RuneError = 0xFFFD"

definition MaxLatin1 :: rune where
  "MaxLatin1 = 0xFF"

definition cont :: "int \<Rightarrow> bool" where
  \<comment> \<open>a UTF-8 continuation byte\<close>
  "cont b = (0x80 \<le> b \<and> b \<le> 0xBF)"

text \<open>
  \<open>utf8.DecodeRuneInString\<close>: the first rune of a string and its width in bytes. Invalid
  or truncated UTF-8 gives \<open>RuneError\<close> of width 1, the empty string width 0.
\<close>

definition DecodeRuneInString :: "string \<Rightarrow> rune \<times> nat" where
  "DecodeRuneInString s =
     (case map of_char (take 4 s) of
        [] \<Rightarrow> (RuneError, 0)
      | b0 # bs \<Rightarrow>
          if b0 < 0x80 then (b0, 1)
          else if b0 < 0xC2 \<or> 0xF4 < b0 then (RuneError, 1)
          else
            let sz = (if b0 < 0xE0 then 2 else if b0 < 0xF0 then 3 else 4 :: nat);
                lo = (if b0 = 0xE0 then 0xA0 else if b0 = 0xF0 then 0x90 else 0x80 :: int);
                hi = (if b0 = 0xED then 0x9F else if b0 = 0xF4 then 0x8F else 0xBF :: int)
            in if Suc (length bs) < sz then (RuneError, 1)
               else if bs ! 0 < lo \<or> hi < bs ! 0 then (RuneError, 1)
               else if sz = 2 then ((b0 mod 0x20) * 0x40 + bs ! 0 mod 0x40, 2)
               else if \<not> cont (bs ! 1) then (RuneError, 1)
               else if sz = 3 then
                 ((b0 mod 0x10) * 0x1000 + (bs ! 0 mod 0x40) * 0x40 + bs ! 1 mod 0x40, 3)
               else if \<not> cont (bs ! 2) then (RuneError, 1)
               else ((b0 mod 0x08) * 0x40000 + (bs ! 0 mod 0x40) * 0x1000
                       + (bs ! 1 mod 0x40) * 0x40 + bs ! 2 mod 0x40, 4))"

text \<open>
  \<open>for i, r := range timeStr\<close>: the runes of the string, each with the byte offset at
  which it starts.
\<close>

fun range_from :: "nat \<Rightarrow> string \<Rightarrow> (nat \<times> rune) list" where
  "range_from i [] = []"
| "range_from i (c # cs) =
     (i, fst (DecodeRuneInString (c # cs)))
       # range_from (i + snd (DecodeRuneInString (c # cs)))
           (drop (snd (DecodeRuneInString (c # cs)) - 1) cs)"

definition range_string :: "string \<Rightarrow> (nat \<times> rune) list" where
  "range_string s = range_from 0 s"

text \<open>
  \<open>unicode.IsDigit\<close> and \<open>unicode.IsSpace\<close>. Up to U+00FF both are decided by the
  comparisons below; beyond, by the tables \<open>Nd\<close> and \<open>White_Space\<close> of the Unicode
  database (here as of Unicode 13).
\<close>

definition in_ranges :: "(int \<times> int) list \<Rightarrow> rune \<Rightarrow> bool" where
  "in_ranges tab r = list_ex (\<lambda>(lo, hi). lo \<le> r \<and> r \<le> hi) tab"

definition Nd :: "(int \<times> int) list" where
  "Nd = [(0x0660, 0x0669), (0x06F0, 0x06F9), (0x07C0, 0x07C9), (0x0966, 0x096F),
     (0x09E6, 0x09EF), (0x0A66, 0x0A6F), (0x0AE6, 0x0AEF), (0x0B66, 0x0B6F),
     (0x0BE6, 0x0BEF), (0x0C66, 0x0C6F), (0x0CE6, 0x0CEF), (0x0D66, 0x0D6F),
     (0x0DE6, 0x0DEF), (0x0E50, 0x0E59), (0x0ED0, 0x0ED9), (0x0F20, 0x0F29),
     (0x1040, 0x1049), (0x1090, 0x1099), (0x17E0, 0x17E9), (0x1810, 0x1819),
     (0x1946, 0x194F), (0x19D0, 0x19D9), (0x1A80, 0x1A89), (0x1A90, 0x1A99),
     (0x1B50, 0x1B59), (0x1BB0, 0x1BB9), (0x1C40, 0x1C49), (0x1C50, 0x1C59),
     (0xA620, 0xA629), (0xA8D0, 0xA8D9), (0xA900, 0xA909), (0xA9D0, 0xA9D9),
     (0xA9F0, 0xA9F9), (0xAA50, 0xAA59), (0xABF0, 0xABF9), (0xFF10, 0xFF19),
     (0x104A0, 0x104A9), (0x10D30, 0x10D39), (0x11066, 0x1106F), (0x110F0, 0x110F9),
     (0x11136, 0x1113F), (0x111D0, 0x111D9), (0x112F0, 0x112F9), (0x11450, 0x11459),
     (0x114D0, 0x114D9), (0x11650, 0x11659), (0x116C0, 0x116C9), (0x11730, 0x11739),
     (0x118E0, 0x118E9), (0x11950, 0x11959), (0x11C50, 0x11C59), (0x11D50, 0x11D59),
     (0x11DA0, 0x11DA9), (0x16A60, 0x16A69), (0x16B50, 0x16B59), (0x1D7CE, 0x1D7FF),
     (0x1E140, 0x1E149), (0x1E2F0, 0x1E2F9), (0x1E950, 0x1E959), (0x1FBF0, 0x1FBF9)]"

definition White_Space :: "(int \<times> int) list" where
  "White_Space = [(0x1680, 0x1680), (0x2000, 0x200A), (0x2028, 0x2029),
     (0x202F, 0x202F), (0x205F, 0x205F), (0x3000, 0x3000)]"

definition IsDigit :: "rune \<Rightarrow> bool" where
  "IsDigit r = (if r \<le> MaxLatin1 then ru CHR ''0'' \<le> r \<and> r \<le> ru CHR ''9''
                else in_ranges Nd r)"

definition IsSpace :: "rune \<Rightarrow> bool" where
  "IsSpace r = (if r \<le> MaxLatin1
                then r = 0x09 \<or> r = 0x0A \<or> r = 0x0B \<or> r = 0x0C \<or> r = 0x0D
                   \<or> r = 0x20 \<or> r = 0x85 \<or> r = 0xA0
                else in_ranges White_Space r)"

definition ToUpper_is :: "rune \<Rightarrow> char \<Rightarrow> bool" where
  \<comment> \<open>\<open>unicode.ToUpper(r) == c\<close> for the capitals \<open>'T'\<close> and \<open>'Z'\<close>: only the letter and its
      lower case have that upper case\<close>
  "ToUpper_is r c = (r = ru c \<or> r = ru c + 32)"

text \<open>
  \<open>utility.RunesToString\<close>: each rune written in UTF-8 (\<open>strings.Builder.WriteRune\<close>); a
  surrogate or a value beyond U+10FFFF is written as \<open>RuneError\<close>.
\<close>

definition encode_rune :: "rune \<Rightarrow> int list" where
  "encode_rune r =
     (if r < 0x80 then [r]
      else if r < 0x800 then [0xC0 + r div 0x40, 0x80 + r mod 0x40]
      else if (0xD800 \<le> r \<and> r \<le> 0xDFFF) \<or> 0x10FFFF < r then [0xEF, 0xBF, 0xBD]
      else if r < 0x10000 then
        [0xE0 + r div 0x1000, 0x80 + r div 0x40 mod 0x40, 0x80 + r mod 0x40]
      else [0xF0 + r div 0x40000, 0x80 + r div 0x1000 mod 0x40,
            0x80 + r div 0x40 mod 0x40, 0x80 + r mod 0x40])"

definition RunesToString :: "rune list \<Rightarrow> string" where
  "RunesToString runes = map char_of (concat (map encode_rune runes))"


section \<open>Errors, locations and times\<close>

datatype field = Year | Month | Day | Hour | Minute | Second

datatype error =
    ErrTooLong string nat
      \<comment> \<open>"input ... length is n and > max of 35": the first 35 bytes and the length\<close>
  | ErrUnparsed "(rune \<times> nat) list" string
      \<comment> \<open>"got unparsed caracters 'c'@i,... in input ...": every recorded rune with its offset\<close>
  | ErrZoneLength nat
      \<comment> \<open>"zone is of length n wich is not enough to detect zone"\<close>
  | ErrFieldLength field
      \<comment> \<open>"input year length is not 4", "input month length is not 2", ...\<close>
  | errCannotParseNumber
  | ErrSyntax string
      \<comment> \<open>\<open>strconv.ErrSyntax\<close>\<close>
  | ErrRange string
      \<comment> \<open>\<open>strconv.ErrRange\<close>\<close>
  | ErrOffsetMinutes int
      \<comment> \<open>"UTC offset minutes n not in a 15 minute increment"\<close>
  | ErrNotISO string
      \<comment> \<open>"Could not parse as ISO timestamp ..."\<close>
  | ErrNotUnix string
      \<comment> \<open>"timestamp.parseTimestamp: could not parse as UNIX timestamp ..."\<close>
  | ErrNoPattern string
      \<comment> \<open>"timestamp.parseTimestamp: could not parse with other timestamp patterns ..."\<close>
  | ErrParseUnixTS string
      \<comment> \<open>"timestamp.ParseUnixTS: Could not parse as UNIX timestamp ..."\<close>
  | PanicIndex
      \<comment> \<open>run-time panic: index out of range\<close>
  | PanicSliceBounds nat nat
      \<comment> \<open>run-time panic: slice bounds out of range [low:high]\<close>

datatype location =
    UTC
  | FixedZone string int
      \<comment> \<open>\<open>time.FixedZone(name, offsetSec)\<close>\<close>
  | Zone string
      \<comment> \<open>any other location a caller passes in, by name\<close>

text \<open>
  The nanosecond argument of \<open>time.Unix\<close>. \<open>parseUnixTS\<close> computes it in floating point,
  \<open>int64(float64(n) * math.Pow(10, e))\<close>; that product is kept as written.
\<close>

datatype nanos = Nanos int | ScaledFloat int int

text \<open>
  A \<open>time.Time\<close> is kept as the library call that makes it: the arguments the parser
  hands to \<open>time.Date\<close>, \<open>time.Unix\<close> or \<open>Time.In\<close>.
\<close>

datatype gotime =
    Date int int int int int int int location
      \<comment> \<open>\<open>time.Date(y, time.Month(m), d, h, mn, s, nsec, loc)\<close>\<close>
  | Unix int nanos
      \<comment> \<open>\<open>time.Unix(sec, nsec)\<close>\<close>
  | In gotime location
      \<comment> \<open>\<open>t.In(loc)\<close>\<close>

section \<open>Numeric decoding\<close>

definition byte_minus_0 :: "char \<Rightarrow> int" where
  \<comment> \<open>\<open>int(in[k] - '0')\<close>: the subtraction is on bytes and wraps\<close>
  "byte_minus_0 c = (of_char c + 256 - 48) mod 256"

definition atoi2 :: "string \<Rightarrow> error + int" where
  "atoi2 inp =
     (case inp of
        c0 # c1 # _ \<Rightarrow>
          (let a = byte_minus_0 c0; b = byte_minus_0 c1
           in if a < 0 \<or> a > 9 \<or> b < 0 \<or> b > 9 then Inl errCannotParseNumber
              else Inr (a * 10 + b))
      | _ \<Rightarrow> Inl PanicIndex)"

definition atoi4 :: "string \<Rightarrow> error + int" where
  "atoi4 inp =
     (case inp of
        c0 # c1 # c2 # c3 # _ \<Rightarrow>
          (let a = byte_minus_0 c0; b = byte_minus_0 c1;
               c = byte_minus_0 c2; d = byte_minus_0 c3
           in if a < 0 \<or> a > 9 \<or> b < 0 \<or> b > 9 \<or> c < 0 \<or> c > 9 \<or> d < 0 \<or> d > 9
              then Inl errCannotParseNumber
              else Inr (a * 1000 + b * 100 + c * 10 + d))
      | _ \<Rightarrow> Inl PanicIndex)"

definition ascii_digit :: "char \<Rightarrow> bool" where
  "ascii_digit c = (48 \<le> (of_char c :: int) \<and> (of_char c :: int) \<le> 57)"

text \<open>
  \<open>strconv.ParseUint(s, 10, 64)\<close> reads left to right: the first byte that is not a
  digit is a syntax error, the first digit that takes the value beyond \<open>2^64 - 1\<close> a
  range error.
\<close>

fun ParseUint_from :: "int \<Rightarrow> string \<Rightarrow> string \<Rightarrow> error + int" where
  "ParseUint_from n s0 [] = Inr n"
| "ParseUint_from n s0 (c # cs) =
     (if \<not> ascii_digit c then Inl (ErrSyntax s0)
      else if 2 ^ 64 - 1 < n * 10 + (of_char c - 48) then Inl (ErrRange s0)
      else ParseUint_from (n * 10 + (of_char c - 48)) s0 cs)"

text \<open>\<open>strconv.ParseInt(s, 10, 64)\<close>; \<open>strconv.Atoi\<close> returns the same on a 64-bit \<open>int\<close>.\<close>

definition ParseInt :: "string \<Rightarrow> error + int" where
  "ParseInt s =
     (if s = [] then Inl (ErrSyntax s)
      else
        let neg = (hd s = CHR ''-'');
            body = (if hd s = CHR ''+'' \<or> hd s = CHR ''-'' then tl s else s)
        in if body = [] then Inl (ErrSyntax s)
           else case ParseUint_from 0 s body of
                  Inl err \<Rightarrow> Inl err
                | Inr un \<Rightarrow>
                    if \<not> neg \<and> 2 ^ 63 \<le> un then Inl (ErrRange s)
                    else if neg \<and> 2 ^ 63 < un then Inl (ErrRange s)
                    else Inr (if neg then - un else un))"

definition Atoi :: "string \<Rightarrow> error + int" where
  "Atoi s = ParseInt s"

section \<open>The offset location cache\<close>

text \<open>
  \<open>locationAtomic\<close> holds a \<open>map[int]*time.Location\<close>. A key is inserted only when it is
  absent, so the entries are kept as a list of pairs and \<open>len\<close> is its length.
\<close>

type_synonym cache = "(int \<times> location) list"

definition LocationFromOffset :: "int \<Rightarrow> cache \<Rightarrow> location \<times> cache" where
  "LocationFromOffset offsetSec cachedZones =
     (case map_of cachedZones offsetSec of
        Some l \<Rightarrow> (l, if length cachedZones > 50 then [] else cachedZones)
      | None \<Rightarrow>
          (let location = FixedZone ''FixedZone'' offsetSec
           in (location, cachedZones @ [(offsetSec, location)])))"

section \<open>The ISO scanner\<close>

datatype sect =
    emptySection | yearSection | monthSection | daySection | hourSection
  | minuteSection | secondSection | subsecondSection | zoneSection | afterSection

definition maxLength :: nat where "maxLength = 35"
definition yearMax :: nat where "yearMax = 4"
definition monthMax :: nat where "monthMax = 2"
definition dayMax :: nat where "dayMax = 2"
definition hourMax :: nat where "hourMax = 2"
definition minuteMax :: nat where "minuteMax = 2"
definition secondMax :: nat where "secondMax = 2"
definition subsecondMax :: nat where "subsecondMax = 9"
definition zoneMax :: nat where "zoneMax = 4"

text \<open>
  The variables of \<open>ParseISOTimestamp\<close> that the loop over the runes reads and writes.
  (\<open>partAtMax\<close> is written and read within one iteration and is a local of \<open>digit\<close> below.)
\<close>

record scan =
  currentSection :: sect
  offsetPositive :: bool
  yearPart :: "rune list"
  monthPart :: "rune list"
  dayPart :: "rune list"
  hourPart :: "rune list"
  minutePart :: "rune list"
  secondPart :: "rune list"
  subsecondPart :: "rune list"
  zonePart :: "rune list"
  unparsed :: "(rune \<times> nat) list"

definition init_scan :: scan where
  "init_scan = \<lparr>currentSection = emptySection, offsetPositive = False,
     yearPart = [], monthPart = [], dayPart = [], hourPart = [], minutePart = [],
     secondPart = [], subsecondPart = [], zonePart = [], unparsed = []\<rparr>"

definition addIf :: "rune list \<Rightarrow> rune \<Rightarrow> nat \<Rightarrow> rune list \<times> bool" where
  "addIf part add mx =
     (let part' = (if length part < mx then part @ [add] else part)
      in (part', length part' = mx))"

definition isZero :: "rune list \<Rightarrow> bool" where
  "isZero part = list_all (\<lambda>r. r = ru CHR ''0'') part"

definition note_unparsed :: "nat \<Rightarrow> rune \<Rightarrow> scan \<Rightarrow> scan" where
  \<comment> \<open>\<open>unparsed = append(unparsed, "'c'@i")\<close>\<close>
  "note_unparsed i orig st = st\<lparr>unparsed := unparsed st @ [(orig, i)]\<rparr>"

text \<open>The \<open>switch currentSection\<close> taken for a digit.\<close>

definition digit :: "nat \<Rightarrow> rune \<Rightarrow> scan \<Rightarrow> scan" where
  "digit i r st =
     (case currentSection st of
        emptySection \<Rightarrow>
          (let (part, partAtMax) = addIf (yearPart st) r yearMax
           in st\<lparr>yearPart := part,
                 currentSection := (if partAtMax then monthSection else yearSection)\<rparr>)
      | yearSection \<Rightarrow>
          (let (part, partAtMax) = addIf (yearPart st) r yearMax
           in st\<lparr>yearPart := part,
                 currentSection := (if partAtMax then monthSection else yearSection)\<rparr>)
      | monthSection \<Rightarrow>
          (let (part, partAtMax) = addIf (monthPart st) r monthMax
           in st\<lparr>monthPart := part,
                 currentSection := (if partAtMax then daySection else monthSection)\<rparr>)
      | daySection \<Rightarrow>
          (let (part, partAtMax) = addIf (dayPart st) r dayMax
           in st\<lparr>dayPart := part,
                 currentSection := (if partAtMax then hourSection else daySection)\<rparr>)
      | hourSection \<Rightarrow>
          (let (part, partAtMax) = addIf (hourPart st) r hourMax
           in st\<lparr>hourPart := part,
                 currentSection := (if partAtMax then minuteSection else hourSection)\<rparr>)
      | minuteSection \<Rightarrow>
          (let (part, partAtMax) = addIf (minutePart st) r minuteMax
           in st\<lparr>minutePart := part,
                 currentSection := (if partAtMax then secondSection else minuteSection)\<rparr>)
      | secondSection \<Rightarrow>
          (let (part, partAtMax) = addIf (secondPart st) r secondMax
           in st\<lparr>secondPart := part,
                 currentSection := (if partAtMax then subsecondSection else secondSection)\<rparr>)
      | subsecondSection \<Rightarrow>
          (let (part, partAtMax) = addIf (subsecondPart st) r subsecondMax
           in st\<lparr>subsecondPart := part,
                 currentSection := (if partAtMax then zoneSection else subsecondSection)\<rparr>)
      | zoneSection \<Rightarrow>
          (let (part, partAtMax) = addIf (zonePart st) r zoneMax
           in st\<lparr>zonePart := part,
                 currentSection := (if partAtMax then afterSection else zoneSection)\<rparr>)
      | afterSection \<Rightarrow> note_unparsed i r st)"

text \<open>
  One iteration of the loop: \<open>Next\<close> goes on with the following rune (the end of the body
  or \<open>continue\<close>), \<open>Break\<close> leaves the loop.
\<close>

datatype flow = Next scan | Break scan

definition step :: "nat \<Rightarrow> rune \<Rightarrow> scan \<Rightarrow> flow" where
  "step i r st =
     (if IsDigit r then Next (digit i r st)
      else if r = ru CHR ''.'' then Next st
      else if r = ru CHR ''-'' \<or> r = ru CHR ''+'' then
        Next (if currentSection st = subsecondSection
              then st\<lparr>offsetPositive := (r = ru CHR ''+''), currentSection := zoneSection\<rparr>
              else st)
      else if ToUpper_is r CHR ''T'' \<or> r = ru CHR '':'' \<or> r = ru CHR ''/'' then Next st
      else if ToUpper_is r CHR ''Z'' then
        (if currentSection st = zoneSection \<or> currentSection st = subsecondSection
         then Break (st\<lparr>zonePart := zonePart st
                 @ [ru CHR ''0'', ru CHR ''0'', ru CHR ''0'', ru CHR ''0'']\<rparr>)
         else Next (note_unparsed i r st))
      else if IsSpace r then Next st
      else Next (note_unparsed i r st))"

fun scan_run :: "(nat \<times> rune) list \<Rightarrow> scan \<Rightarrow> flow" where
  "scan_run [] st = Next st"
| "scan_run ((i, r) # rest) st =
     (case step i r st of
        Break st' \<Rightarrow> Break st'
      | Next st' \<Rightarrow> scan_run rest st')"

definition after_loop :: "flow \<Rightarrow> scan" where
  "after_loop f = (case f of Next st \<Rightarrow> st | Break st \<Rightarrow> st)"

section \<open>Validation and decoding after the scan\<close>

definition zone_check :: "rune list \<Rightarrow> error + bool \<times> rune list" where
  \<comment> \<open>\<open>zoneFound\<close> and the padded \<open>zonePart\<close>\<close>
  "zone_check zone =
     (let zoneLen = length zone
      in if zoneLen < zoneMax then
           (if zoneLen = 1 \<or> zoneLen = 3 then Inl (ErrZoneLength zoneLen)
            else if zoneLen = 0 then
              Inr (False, zone @ [ru CHR ''0'', ru CHR ''0'', ru CHR ''0'', ru CHR ''0''])
            else if zoneLen = 2 then Inr (True, zone @ [ru CHR ''0'', ru CHR ''0''])
            else Inr (True, zone))
         else Inr (True, zone))"

definition decode2 :: "rune list \<Rightarrow> error + int" where
  \<comment> \<open>\<open>if isZero(part...) == false { v, err = atoi2(utility.RunesToString(part...)) }\<close>\<close>
  "decode2 part = (if \<not> isZero part then atoi2 (RunesToString part) else Inr 0)"

definition decode4 :: "rune list \<Rightarrow> error + int" where
  "decode4 part = (if \<not> isZero part then atoi4 (RunesToString part) else Inr 0)"

definition decodeN :: "rune list \<Rightarrow> error + int" where
  \<comment> \<open>the same with \<open>strconv.Atoi\<close>\<close>
  "decodeN part = (if \<not> isZero part then Atoi (RunesToString part) else Inr 0)"

definition decode_subseconds :: "rune list \<Rightarrow> error + int" where
  "decode_subseconds part =
     (let subsecondLen = length part
      in if subsecondLen > 0 \<and> \<not> isZero part then
           (case Atoi (RunesToString part) of
              Inl err \<Rightarrow> Inl err
            | Inr subseconds \<Rightarrow>
                Inr (if subsecondLen < subsecondMax
                     then subseconds * 10 ^ (subsecondMax - subsecondLen)
                     else subseconds))
         else Inr 0)"

text \<open>
  The end of \<open>ParseISOTimestamp\<close>: the location of the result, from \<open>zoneFound\<close>, the
  padded zone digits and the sign.
\<close>

definition resolve_zone ::
  "bool \<Rightarrow> rune list \<Rightarrow> bool \<Rightarrow> location \<Rightarrow> cache \<Rightarrow> (error + location) \<times> cache" where
  "resolve_zone zoneFound zone positive location cachedZones =
     (let offsetZero = isZero zone
      in if \<not> zoneFound then (Inr location, cachedZones)
         else if offsetZero then (Inr UTC, cachedZones)
         else
           case decodeN (take 2 zone) of
             Inl err \<Rightarrow> (Inl err, cachedZones)
           | Inr offsetH \<Rightarrow>
               (case decodeN (drop 2 zone) of
                  Inl err \<Rightarrow> (Inl err, cachedZones)
                | Inr offsetM \<Rightarrow>
                    (let offsetSec0 = offsetH * 60 * 60 + offsetM * 60;
                         offsetSec = (if \<not> positive then - offsetSec0 else offsetSec0)
                     in if offsetM = 0 \<or> offsetM = 15 \<or> offsetM = 30 \<or> offsetM = 45
                        then (case LocationFromOffset offsetSec cachedZones of
                                (l, cachedZones') \<Rightarrow> (Inr l, cachedZones'))
                        else (Inl (ErrOffsetMinutes offsetM), cachedZones))))"

definition after_scan :: "scan \<Rightarrow> location \<Rightarrow> cache \<Rightarrow> (error + gotime) \<times> cache" where
  "after_scan st location cachedZones =
     (case zone_check (zonePart st) of
        Inl err \<Rightarrow> (Inl err, cachedZones)
      | Inr (zoneFound, zone) \<Rightarrow>
          let yearLen = length (yearPart st);
              monthLen = length (monthPart st);
              dayLen = length (dayPart st);
              hourLen0 = length (hourPart st);
              minuteLen0 = length (minutePart st);
              secondLen0 = length (secondPart st);
              dateOnly = (hourLen0 = 0 \<and> minuteLen0 = 0 \<and> secondLen0 = 0);
              hour = (if dateOnly then hourPart st @ [ru CHR ''0'', ru CHR ''0'']
                      else hourPart st);
              minute = (if dateOnly then minutePart st @ [ru CHR ''0'', ru CHR ''0'']
                        else minutePart st);
              second = (if dateOnly then secondPart st @ [ru CHR ''0'', ru CHR ''0'']
                        else secondPart st);
              hourLen = (if dateOnly then hourMax else hourLen0);
              minuteLen = (if dateOnly then minuteMax else minuteLen0);
              secondLen = (if dateOnly then secondMax else secondLen0)
          in if yearLen \<noteq> yearMax then (Inl (ErrFieldLength Year), cachedZones)
             else if monthLen \<noteq> monthMax then (Inl (ErrFieldLength Month), cachedZones)
             else if dayLen \<noteq> dayMax then (Inl (ErrFieldLength Day), cachedZones)
             else if hourLen \<noteq> hourMax then (Inl (ErrFieldLength Hour), cachedZones)
             else if minuteLen \<noteq> minuteMax then (Inl (ErrFieldLength Minute), cachedZones)
             else if secondLen \<noteq> secondMax then (Inl (ErrFieldLength Second), cachedZones)
             else
               (case decode4 (yearPart st) of Inl err \<Rightarrow> (Inl err, cachedZones) | Inr y \<Rightarrow>
               (case decode2 (monthPart st) of Inl err \<Rightarrow> (Inl err, cachedZones) | Inr m \<Rightarrow>
               (case decode2 (dayPart st) of Inl err \<Rightarrow> (Inl err, cachedZones) | Inr d \<Rightarrow>
               (case decode2 hour of Inl err \<Rightarrow> (Inl err, cachedZones) | Inr h \<Rightarrow>
               (case decode2 minute of Inl err \<Rightarrow> (Inl err, cachedZones) | Inr mn \<Rightarrow>
               (case decode2 second of Inl err \<Rightarrow> (Inl err, cachedZones) | Inr s \<Rightarrow>
               (case decode_subseconds (subsecondPart st) of
                  Inl err \<Rightarrow> (Inl err, cachedZones)
                | Inr subseconds \<Rightarrow>
               (case resolve_zone zoneFound zone (offsetPositive st) location cachedZones of
                  (Inl err, cachedZones') \<Rightarrow> (Inl err, cachedZones')
                | (Inr l, cachedZones') \<Rightarrow>
                    (Inr (Date y m d h mn s subseconds l), cachedZones'))))))))))"

definition ParseISOTimestamp :: "string \<Rightarrow> location \<Rightarrow> cache \<Rightarrow> (error + gotime) \<times> cache" where
  "ParseISOTimestamp timeStr location cachedZones =
     (let timeStrLength = length timeStr
      in if timeStrLength > maxLength
         then (Inl (ErrTooLong (take 35 timeStr) timeStrLength), cachedZones)
         else
           let st = after_loop (scan_run (range_string timeStr) init_scan)
           in if length (unparsed st) > 0
              then (Inl (ErrUnparsed (unparsed st) timeStr), cachedZones)
              else after_scan st location cachedZones)"


section \<open>Unix timestamps\<close>

text \<open>
  \<open>reDigits\<close> is \<open>^\d+\.?\d+$\<close>: one or more digits, at most one dot, one or more digits.
  The match is decided from the longest prefix of digits.
\<close>

definition reDigits :: "string \<Rightarrow> bool" where
  "reDigits s =
     (let a = takeWhile ascii_digit s; rest = dropWhile ascii_digit s
      in if rest = [] then 2 \<le> length a
         else a \<noteq> [] \<and> hd rest = CHR ''.'' \<and> tl rest \<noteq> [] \<and> list_all ascii_digit (tl rest))"

definition SplitN2 :: "string \<Rightarrow> string list" where
  \<comment> \<open>\<open>strings.SplitN(s, ".", 2)\<close>: cut at the first dot, if there is one\<close>
  "SplitN2 s =
     (let a = takeWhile (\<lambda>c. c \<noteq> CHR ''.'') s; b = dropWhile (\<lambda>c. c \<noteq> CHR ''.'') s
      in if b = [] then [a] else [a, tl b])"

definition slice :: "string \<Rightarrow> nat \<Rightarrow> nat \<Rightarrow> error + string" where
  \<comment> \<open>\<open>s[low:high]\<close>, which panics unless \<open>low <= high <= len(s)\<close>\<close>
  "slice s low high =
     (if low \<le> high \<and> high \<le> length s then Inr (take (high - low) (drop low s))
      else Inl (PanicSliceBounds low high))"

definition parseUnixTS :: "string \<Rightarrow> error + int \<times> nanos" where
  "parseUnixTS timeStr =
     (let sa = SplitN2 timeStr
      in case ParseInt (sa ! 0) of
           Inl err \<Rightarrow> Inl err
         | Inr s \<Rightarrow>
             if length sa \<noteq> 2 then Inr (s, Nanos 0)
             else (case ParseInt (sa ! 1) of
                     Inl err \<Rightarrow> Inl err
                   | Inr n \<Rightarrow> Inr (s, ScaledFloat n (9 - int (length (sa ! 1))))))"

text \<open>
  The string \<open>ParseUnixTS\<close> hands to \<open>parseUnixTS\<close>: the input, or, when it is longer
  than 10 bytes, \<open>timeStr[0:10]\<close>, a dot and \<open>timeStr[11:timeStrLength-1]\<close>.
\<close>

definition toSend :: "string \<Rightarrow> error + string" where
  "toSend timeStr =
     (let timeStrLength = length timeStr
      in if timeStrLength > 10 then
           (case slice timeStr 0 10 of
              Inl p \<Rightarrow> Inl p
            | Inr sec \<Rightarrow>
                (case slice timeStr 11 (timeStrLength - 1) of
                   Inl p \<Rightarrow> Inl p
                 | Inr nsec \<Rightarrow> Inr (sec @ ''.'' @ nsec)))
         else Inr timeStr)"

definition ParseUnixTS :: "string \<Rightarrow> error + gotime" where
  "ParseUnixTS timeStr =
     (let match = reDigits timeStr; timeStrLength = length timeStr
      in if match \<and> timeStrLength > 6 then
           (case toSend timeStr of
              Inl p \<Rightarrow> Inl p
            | Inr ts \<Rightarrow>
                (case parseUnixTS ts of
                   Inl err \<Rightarrow> Inl err
                 | Inr (s, n) \<Rightarrow> Inr (Unix s n)))
         else Inl (ErrParseUnixTS timeStr))"

section \<open>The dispatcher\<close>

text \<open>
  \<open>strings.TrimSpace\<close>: the string without the white-space runes at its start (decoded
  forwards) and at its end (decoded backwards, \<open>utf8.DecodeLastRuneInString\<close>).
\<close>

definition DecodeLastRuneInString :: "string \<Rightarrow> rune \<times> nat" where
  "DecodeLastRuneInString s =
     (let e = length s
      in if e = 0 then (RuneError, 0)
         else if (of_char (s ! (e - 1)) :: int) < 0x80 then (of_char (s ! (e - 1)), 1)
         else
           let lim = e - 4;
               starts = filter (\<lambda>k. \<not> cont (of_char (s ! k))) (rev [lim ..< e - 1]);
               start = (case starts of k # _ \<Rightarrow> k | [] \<Rightarrow> lim - 1)
           in if start + snd (DecodeRuneInString (drop start s)) \<noteq> e then (RuneError, 1)
              else DecodeRuneInString (drop start s))"

fun trim_left :: "string \<Rightarrow> string" where
  "trim_left [] = []"
| "trim_left (c # cs) =
     (if IsSpace (fst (DecodeRuneInString (c # cs)))
      then trim_left (drop (snd (DecodeRuneInString (c # cs)) - 1) cs)
      else c # cs)"

fun trim_right_fuel :: "nat \<Rightarrow> string \<Rightarrow> string" where
  "trim_right_fuel 0 s = s"
| "trim_right_fuel (Suc k) s =
     (if s \<noteq> [] \<and> IsSpace (fst (DecodeLastRuneInString s))
      then trim_right_fuel k (take (length s - snd (DecodeLastRuneInString s)) s)
      else s)"

definition trim_right :: "string \<Rightarrow> string" where
  \<comment> \<open>every round removes at least one byte, so \<open>length s\<close> rounds are enough\<close>
  "trim_right s = trim_right_fuel (length s) s"

definition TrimSpace :: "string \<Rightarrow> string" where
  "TrimSpace s = trim_right (trim_left s)"

definition nonISOTimeFormats :: "string list" where
  "nonISOTimeFormats =
     [''Mon, 02 Jan 2006 15:04:05 GMT'',
      ''Mon, 02 Jan 2006 15:04:05 -0700'',
      ''Mon, 02 Jan 2006 15:04:05'',
      ''Monday, 02-Jan-2006 15:04:05'',
      ''02 Jan 06 15:04 -0700'',
      ''2006-01-02 15-04-05'',
      ''20060102150405'',
      ''20060102'',
      ''01/02/2006'',
      ''1/2/2006'']"

text \<open>
  \<open>time.ParseInLocation(layout, value, loc)\<close> belongs to Go's library; the dispatcher
  takes it as its first argument, \<open>None\<close> standing for a returned error.
\<close>

type_synonym layout_parser = "string \<Rightarrow> string \<Rightarrow> location \<Rightarrow> gotime option"

text \<open>
  Besides its result, the model of \<open>parseTimestamp\<close> returns the parsers it called, in
  the order of the calls.
\<close>

datatype attempt = CallISO | CallUnix | CallLayout string

fun try_formats ::
  "layout_parser \<Rightarrow> string list \<Rightarrow> string \<Rightarrow> location \<Rightarrow> attempt list \<times> gotime option" where
  "try_formats tp [] original location = ([], None)"
| "try_formats tp (format # rest) original location =
     (case tp format original location of
        Some t \<Rightarrow> ([CallLayout format], Some t)
      | None \<Rightarrow>
          (case try_formats tp rest original location of
             (calls, res) \<Rightarrow> (CallLayout format # calls, res)))"

definition isTS :: "string \<Rightarrow> bool" where
  \<comment> \<open>the flag \<open>isTS\<close> of \<open>parseTimestamp\<close>, from the trimmed string\<close>
  "isTS timeStr = (reDigits timeStr \<and> length timeStr \<noteq> 8 \<and> length timeStr \<noteq> 14)"

definition is_panic :: "error \<Rightarrow> bool" where
  "is_panic e = (case e of PanicIndex \<Rightarrow> True | PanicSliceBounds _ _ \<Rightarrow> True | _ \<Rightarrow> False)"

definition parseTimestamp ::
  "layout_parser \<Rightarrow> string \<Rightarrow> location \<Rightarrow> bool \<Rightarrow> cache
     \<Rightarrow> attempt list \<times> (error + gotime) \<times> cache" where
  "parseTimestamp tp timeStr0 location isoOnly cachedZones =
     (let timeStr = TrimSpace timeStr0;
          original = timeStr;
          ts = isTS timeStr;
          (calls1, iso, cachedZones1) =
            (if \<not> ts
             then (case ParseISOTimestamp timeStr location cachedZones of
                     (res, cz) \<Rightarrow> ([CallISO], Some res, cz))
             else ([], None, cachedZones));
          others =
            (if isoOnly then (calls1, Inl (ErrNotISO timeStr), cachedZones1)
             else if ts then
               (case ParseUnixTS timeStr of
                  Inl err \<Rightarrow>
                    (calls1 @ [CallUnix],
                     Inl (if is_panic err then err else ErrNotUnix timeStr), cachedZones1)
                | Inr t \<Rightarrow> (calls1 @ [CallUnix], Inr (In t location), cachedZones1))
             else
               (case try_formats tp nonISOTimeFormats original location of
                  (calls2, Some t) \<Rightarrow> (calls1 @ calls2, Inr t, cachedZones1)
                | (calls2, None) \<Rightarrow>
                    (calls1 @ calls2, Inl (ErrNoPattern timeStr), cachedZones1)))
      in case iso of
           Some (Inr t) \<Rightarrow> (calls1, Inr t, cachedZones1)
         | Some (Inl err) \<Rightarrow> if is_panic err then (calls1, Inl err, cachedZones1) else others
         | None \<Rightarrow> others)"

definition ParseInUTC ::
  "layout_parser \<Rightarrow> string \<Rightarrow> cache \<Rightarrow> attempt list \<times> (error + gotime) \<times> cache" where
  "ParseInUTC tp timeStr = parseTimestamp tp timeStr UTC False"

definition ParseISOInUTC ::
  "layout_parser \<Rightarrow> string \<Rightarrow> cache \<Rightarrow> attempt list \<times> (error + gotime) \<times> cache" where
  "ParseISOInUTC tp timeStr = parseTimestamp tp timeStr UTC True"

definition ParseInLocation ::
  "layout_parser \<Rightarrow> string \<Rightarrow> location \<Rightarrow> cache
     \<Rightarrow> attempt list \<times> (error + gotime) \<times> cache" where
  "ParseInLocation tp timeStr location = parseTimestamp tp timeStr location False"

definition ParseISOInLocation ::
  "layout_parser \<Rightarrow> string \<Rightarrow> location \<Rightarrow> cache
     \<Rightarrow> attempt list \<times> (error + gotime) \<times> cache" where
  "ParseISOInLocation tp timeStr location = parseTimestamp tp timeStr location True"

definition no_layout :: layout_parser where
  \<comment> \<open>the answer of \<open>time.ParseInLocation\<close> on a value that fits none of the layouts\<close>
  "no_layout layout v loc = None"


section \<open>The order in which the scanner fills its buffers\<close>

definition filled6 :: "scan \<Rightarrow> bool" where
  \<comment> \<open>year, month, day, hour, minute and second hold all their digits\<close>
  "filled6 st =
     (length (yearPart st) = 4 \<and> length (monthPart st) = 2 \<and> length (dayPart st) = 2
      \<and> length (hourPart st) = 2 \<and> length (minutePart st) = 2
      \<and> length (secondPart st) = 2)"

definition seq_inv :: "scan \<Rightarrow> bool" where
  \<comment> \<open>what the buffers hold while the loop is in a given section\<close>
  "seq_inv st =
     (case currentSection st of
        emptySection \<Rightarrow>
          yearPart st = [] \<and> monthPart st = [] \<and> dayPart st = [] \<and> hourPart st = []
          \<and> minutePart st = [] \<and> secondPart st = [] \<and> subsecondPart st = []
          \<and> zonePart st = []
      | yearSection \<Rightarrow>
          length (yearPart st) < 4 \<and> monthPart st = [] \<and> dayPart st = []
          \<and> hourPart st = [] \<and> minutePart st = [] \<and> secondPart st = []
          \<and> subsecondPart st = [] \<and> zonePart st = []
      | monthSection \<Rightarrow>
          length (yearPart st) = 4 \<and> length (monthPart st) < 2 \<and> dayPart st = []
          \<and> hourPart st = [] \<and> minutePart st = [] \<and> secondPart st = []
          \<and> subsecondPart st = [] \<and> zonePart st = []
      | daySection \<Rightarrow>
          length (yearPart st) = 4 \<and> length (monthPart st) = 2 \<and> length (dayPart st) < 2
          \<and> hourPart st = [] \<and> minutePart st = [] \<and> secondPart st = []
          \<and> subsecondPart st = [] \<and> zonePart st = []
      | hourSection \<Rightarrow>
          length (yearPart st) = 4 \<and> length (monthPart st) = 2 \<and> length (dayPart st) = 2
          \<and> length (hourPart st) < 2 \<and> minutePart st = [] \<and> secondPart st = []
          \<and> subsecondPart st = [] \<and> zonePart st = []
      | minuteSection \<Rightarrow>
          length (yearPart st) = 4 \<and> length (monthPart st) = 2 \<and> length (dayPart st) = 2
          \<and> length (hourPart st) = 2 \<and> length (minutePart st) < 2 \<and> secondPart st = []
          \<and> subsecondPart st = [] \<and> zonePart st = []
      | secondSection \<Rightarrow>
          length (yearPart st) = 4 \<and> length (monthPart st) = 2 \<and> length (dayPart st) = 2
          \<and> length (hourPart st) = 2 \<and> length (minutePart st) = 2
          \<and> length (secondPart st) < 2 \<and> subsecondPart st = [] \<and> zonePart st = []
      | subsecondSection \<Rightarrow>
          filled6 st \<and> length (subsecondPart st) < 9 \<and> zonePart st = []
      | zoneSection \<Rightarrow>
          filled6 st \<and> length (subsecondPart st) \<le> 9 \<and> length (zonePart st) < 4
      | afterSection \<Rightarrow>
          filled6 st \<and> length (subsecondPart st) \<le> 9 \<and> length (zonePart st) = 4)"

definition ordered_fill :: "scan \<Rightarrow> bool" where
  \<comment> \<open>what is left of \<open>seq_inv\<close> once the loop has ended\<close>
  "ordered_fill st =
     ((if hourPart st = [] \<and> minutePart st = [] \<and> secondPart st = [] then True
       else length (yearPart st) = 4 \<and> length (monthPart st) = 2
            \<and> length (dayPart st) = 2)
      \<and> (if length (hourPart st) = 2 \<and> length (minutePart st) = 2
             \<and> length (secondPart st) = 2 then True
          else subsecondPart st = [] \<and> zonePart st = []))"

definition scanned :: "string \<Rightarrow> scan" where
  \<comment> \<open>the variables of \<open>ParseISOTimestamp\<close> when its loop has ended\<close>
  "scanned timeStr = after_loop (scan_run (range_string timeStr) init_scan)"

definition zeros2 :: "rune list" where
  "zeros2 = [ru CHR ''0'', ru CHR ''0'']"

section \<open>Runes the scanner reports\<close>

definition offends :: "scan \<Rightarrow> rune \<Rightarrow> bool" where
  \<comment> \<open>the branches of the loop body that append to \<open>unparsed\<close>: a digit after the zone is
      full, a \<open>Z\<close> outside the subsecond and zone sections, and the final \<open>else\<close>\<close>
  "offends st r =
     ((IsDigit r \<and> currentSection st = afterSection)
      \<or> (\<not> IsDigit r \<and> r \<noteq> ru CHR ''.'' \<and> r \<noteq> ru CHR ''-'' \<and> r \<noteq> ru CHR ''+''
          \<and> \<not> ToUpper_is r CHR ''T'' \<and> r \<noteq> ru CHR '':'' \<and> r \<noteq> ru CHR ''/''
          \<and> (if ToUpper_is r CHR ''Z''
              then currentSection st \<noteq> zoneSection \<and> currentSection st \<noteq> subsecondSection
              else \<not> IsSpace r)))"

definition never_parsed :: "rune \<Rightarrow> bool" where
  \<comment> \<open>a rune that reaches the final \<open>else\<close> of the loop body, whatever the section\<close>
  "never_parsed r =
     (\<not> IsDigit r \<and> r \<noteq> ru CHR ''.'' \<and> r \<noteq> ru CHR ''-'' \<and> r \<noteq> ru CHR ''+''
      \<and> \<not> ToUpper_is r CHR ''T'' \<and> r \<noteq> ru CHR '':'' \<and> r \<noteq> ru CHR ''/''
      \<and> \<not> ToUpper_is r CHR ''Z'' \<and> \<not> IsSpace r)"

section \<open>Formatting\<close>

text \<open>
  The formatting functions of \<open>timestamp.go\<close> call \<open>Time.Format\<close> of Go's library with a
  fixed layout. \<open>Format\<close> prints the date, the clock and the zone offset of the time, so
  it is given here on these: \<open>civil_of\<close> is defined for a time made by \<open>time.Date\<close> in UTC
  or in a fixed zone from fields that are in calendar range, which \<open>time.Date\<close> keeps as
  they are. Any other time needs the calendar arithmetic or the zone database of the
  library.
\<close>

record civil =
  cyear :: int
  cmonth :: int
  cday :: int
  chour :: int
  cminute :: int
  csecond :: int
  cnsec :: int
  coffset :: int

definition isLeap :: "int \<Rightarrow> bool" where
  "isLeap y = (y mod 4 = 0 \<and> (y mod 100 \<noteq> 0 \<or> y mod 400 = 0))"

definition daysIn :: "int \<Rightarrow> int \<Rightarrow> int" where
  "daysIn m y =
     (if m = 2 then (if isLeap y then 29 else 28)
      else if m = 4 \<or> m = 6 \<or> m = 9 \<or> m = 11 then 30 else 31)"

definition in_calendar_range :: "int \<Rightarrow> int \<Rightarrow> int \<Rightarrow> int \<Rightarrow> int \<Rightarrow> int \<Rightarrow> int \<Rightarrow> bool" where
  "in_calendar_range y m d h mn s ns =
     (1 \<le> m \<and> m \<le> 12 \<and> 1 \<le> d \<and> d \<le> daysIn m y \<and> 0 \<le> h \<and> h < 24
      \<and> 0 \<le> mn \<and> mn < 60 \<and> 0 \<le> s \<and> s < 60 \<and> 0 \<le> ns \<and> ns < 1000000000)"

fun civil_of :: "gotime \<Rightarrow> civil option" where
  "civil_of (Date y m d h mn s ns loc) =
     (if in_calendar_range y m d h mn s ns then
        (case loc of
           UTC \<Rightarrow>
             Some \<lparr>cyear = y, cmonth = m, cday = d, chour = h, cminute = mn, csecond = s,
                   cnsec = ns, coffset = 0\<rparr>
         | FixedZone name off \<Rightarrow>
             Some \<lparr>cyear = y, cmonth = m, cday = d, chour = h, cminute = mn, csecond = s,
                   cnsec = ns, coffset = off\<rparr>
         | Zone name \<Rightarrow> None)
      else None)"
| "civil_of (Unix sec nsec) = None"
| "civil_of (In t loc) = None"

fun decimal :: "nat \<Rightarrow> string" where
  "decimal n = (if n < 10 then [char_of (48 + n)]
                else decimal (n div 10) @ [char_of (48 + n mod 10)])"

declare decimal.simps [simp del]

definition dch :: "nat \<Rightarrow> char" where
  \<comment> \<open>the character of a decimal digit\<close>
  "dch k = char_of (48 + k)"

fun digits :: "nat \<Rightarrow> nat \<Rightarrow> string" where
  \<comment> \<open>the last \<open>k\<close> decimal digits of a number\<close>
  "digits 0 n = []"
| "digits (Suc k) n = digits k (n div 10) @ [dch (n mod 10)]"

definition appendInt :: "int \<Rightarrow> nat \<Rightarrow> string" where
  \<comment> \<open>the number in decimal, padded with zeros on the left to the width\<close>
  "appendInt x width =
     (let ds = decimal (nat \<bar>x\<bar>)
      in (if x < 0 then ''-'' else []) @ replicate (width - length ds) CHR ''0'' @ ds)"

text \<open>The elements of a layout, named as in Go's \<open>time\<close> package.\<close>

datatype chunk =
    Lit string
  | stdLongYear       \<comment> \<open>\<open>2006\<close>\<close>
  | stdZeroMonth      \<comment> \<open>\<open>01\<close>\<close>
  | stdZeroDay        \<comment> \<open>\<open>02\<close>\<close>
  | stdHour           \<comment> \<open>\<open>15\<close>\<close>
  | stdZeroMinute     \<comment> \<open>\<open>04\<close>\<close>
  | stdZeroSecond     \<comment> \<open>\<open>05\<close>\<close>
  | stdFracSecond0 nat \<comment> \<open>\<open>.000\<close>: a dot and that many digits of the fraction\<close>
  | stdNumTZ          \<comment> \<open>\<open>-0700\<close>\<close>
  | stdNumColonTZ     \<comment> \<open>\<open>-07:00\<close>\<close>

definition format_zone :: "int \<Rightarrow> bool \<Rightarrow> string" where
  \<comment> \<open>the offset in minutes (the division truncates towards zero), as sign, hours and
      minutes\<close>
  "format_zone offset colon =
     (let zone = \<bar>offset\<bar> div 60
      in (if offset \<le> - 60 then ''-'' else ''+'')
         @ appendInt (zone div 60) 2 @ (if colon then '':'' else []) @ appendInt (zone mod 60) 2)"

fun format_chunk :: "civil \<Rightarrow> chunk \<Rightarrow> string" where
  "format_chunk cv (Lit s) = s"
| "format_chunk cv stdLongYear = appendInt (cyear cv) 4"
| "format_chunk cv stdZeroMonth = appendInt (cmonth cv) 2"
| "format_chunk cv stdZeroDay = appendInt (cday cv) 2"
| "format_chunk cv stdHour = appendInt (chour cv) 2"
| "format_chunk cv stdZeroMinute = appendInt (cminute cv) 2"
| "format_chunk cv stdZeroSecond = appendInt (csecond cv) 2"
| "format_chunk cv (stdFracSecond0 k) = ''.'' @ take k (appendInt (cnsec cv) 9)"
| "format_chunk cv stdNumTZ = format_zone (coffset cv) False"
| "format_chunk cv stdNumColonTZ = format_zone (coffset cv) True"

definition Format :: "gotime \<Rightarrow> chunk list \<Rightarrow> string option" where
  "Format t layout =
     (case civil_of t of
        None \<Rightarrow> None
      | Some cv \<Rightarrow> Some (concat (map (format_chunk cv) layout)))"

definition ISO8601Compact :: "gotime \<Rightarrow> string option" where
  \<comment> \<open>\<open>t.Format("20060102T150405-0700")\<close>\<close>
  "ISO8601Compact t =
     Format t [stdLongYear, stdZeroMonth, stdZeroDay, Lit ''T'', stdHour, stdZeroMinute,
               stdZeroSecond, stdNumTZ]"

definition ISO8601CompactMsec :: "gotime \<Rightarrow> string option" where
  \<comment> \<open>\<open>t.Format("20060102T150405.000-0700")\<close>\<close>
  "ISO8601CompactMsec t =
     Format t [stdLongYear, stdZeroMonth, stdZeroDay, Lit ''T'', stdHour, stdZeroMinute,
               stdZeroSecond, stdFracSecond0 3, stdNumTZ]"

definition ISO8601 :: "gotime \<Rightarrow> string option" where
  \<comment> \<open>\<open>t.Format("2006-01-02T15:04:05-07:00")\<close>\<close>
  "ISO8601 t =
     Format t [stdLongYear, Lit ''-'', stdZeroMonth, Lit ''-'', stdZeroDay, Lit ''T'',
               stdHour, Lit '':'', stdZeroMinute, Lit '':'', stdZeroSecond, stdNumColonTZ]"

definition ISO8601Msec :: "gotime \<Rightarrow> string option" where
  \<comment> \<open>\<open>t.Format("2006-01-02T15:04:05.000-07:00")\<close>\<close>
  "ISO8601Msec t =
     Format t [stdLongYear, Lit ''-'', stdZeroMonth, Lit ''-'', stdZeroDay, Lit ''T'',
               stdHour, Lit '':'', stdZeroMinute, Lit '':'', stdZeroSecond,
               stdFracSecond0 3, stdNumColonTZ]"

section \<open>A caller of the offset cache\<close>

fun lookup_all :: "int list \<Rightarrow> cache \<Rightarrow> cache" where
  \<comment> \<open>the cache after a caller has asked for these offsets, one after the other\<close>
  "lookup_all [] c = c"
| "lookup_all (off # offs) c = lookup_all offs (snd (LocationFromOffset off c))"

definition well_formed :: "cache \<Rightarrow> bool" where
  \<comment> \<open>every entry holds the zone made for its key\<close>
  "well_formed c = list_all (\<lambda>(k, l). l = FixedZone ''FixedZone'' k) c"

section \<open>The patterns of the specification\<close>

text \<open>
  The pattern the specification gives for a numeric candidate, \<open>^\d+(\.\d+)?$\<close>: one or
  more digits, then optionally a dot and one or more digits.
\<close>

definition spec_reDigits :: "string \<Rightarrow> bool" where
  "spec_reDigits s =
     (let a = takeWhile ascii_digit s; rest = dropWhile ascii_digit s
      in a \<noteq> [] \<and>
         (rest = [] \<or> (hd rest = CHR ''.'' \<and> tl rest \<noteq> [] \<and> list_all ascii_digit (tl rest))))"

section \<open>Properties of the dispatcher\<close>

lemma reDigits_iff_spec: "reDigits s \<longleftrightarrow> spec_reDigits s \<and> 2 \<le> length s"
proof (cases "dropWhile ascii_digit s = []")
  case True
  then have tw: "takeWhile ascii_digit s = s"
    by simp
  show ?thesis
    unfolding reDigits_def spec_reDigits_def Let_def tw using True by auto
next
  case False
  have len: "length s = length (takeWhile ascii_digit s) + length (dropWhile ascii_digit s)"
    by (metis length_append takeWhile_dropWhile_id)
  have "takeWhile ascii_digit s \<noteq> [] \<Longrightarrow> 2 \<le> length s"
    using False len by (cases "takeWhile ascii_digit s"; cases "dropWhile ascii_digit s") auto
  with False show ?thesis
    by (auto simp: reDigits_def spec_reDigits_def Let_def)
qed

lemma parseTimestamp_isTS:
  assumes "isTS (TrimSpace s)"
  shows "parseTimestamp tp s loc isoOnly c =
           (if isoOnly then ([], Inl (ErrNotISO (TrimSpace s)), c)
            else case ParseUnixTS (TrimSpace s) of
                   Inl err \<Rightarrow> ([CallUnix],
                       Inl (if is_panic err then err else ErrNotUnix (TrimSpace s)), c)
                 | Inr t \<Rightarrow> ([CallUnix], Inr (In t loc), c))"
  using assms by (simp add: parseTimestamp_def Let_def split: sum.splits)

lemma parseTimestamp_not_isTS:
  assumes "\<not> isTS (TrimSpace s)"
  shows "\<exists>rest. fst (parseTimestamp tp s loc isoOnly c) = CallISO # rest"
  using assms
  by (auto simp: parseTimestamp_def Let_def split: sum.splits prod.splits option.splits)

lemma parseTimestamp_isTS_calls:
  assumes "isTS (TrimSpace s)"
  shows "fst (parseTimestamp tp s loc False c) = [CallUnix]"
  using assms by (simp add: parseTimestamp_isTS split: sum.splits)

text \<open>
  C1, as the code has it. A trimmed input that matches \<open>^\d+(\.\d+)?$\<close>, is at least two
  bytes long and is neither 8 nor 14 bytes long goes to the Unix decoder and to no other
  parser, under \<open>ParseInUTC\<close> and under \<open>ParseInLocation\<close>. A trimmed input of 8 or of 14
  digits goes to the ISO scanner first.
\<close>

theorem C1_numeric_candidates_go_to_unix:
  "(spec_reDigits (TrimSpace s) \<and> 2 \<le> length (TrimSpace s)
      \<and> length (TrimSpace s) \<noteq> 8 \<and> length (TrimSpace s) \<noteq> 14
    \<longrightarrow> fst (ParseInUTC tp s c) = [CallUnix] \<and> fst (ParseInLocation tp s loc c) = [CallUnix])
   \<and> (list_all ascii_digit (TrimSpace s)
        \<and> (length (TrimSpace s) = 8 \<or> length (TrimSpace s) = 14)
      \<longrightarrow> (\<exists>rest. fst (ParseInUTC tp s c) = CallISO # rest)
        \<and> (\<exists>rest. fst (ParseInLocation tp s loc c) = CallISO # rest))"
proof (intro conjI impI)
  assume h: "spec_reDigits (TrimSpace s) \<and> 2 \<le> length (TrimSpace s)
      \<and> length (TrimSpace s) \<noteq> 8 \<and> length (TrimSpace s) \<noteq> 14"
  then have ts: "isTS (TrimSpace s)"
    by (simp add: isTS_def reDigits_iff_spec)
  show "fst (ParseInUTC tp s c) = [CallUnix]"
    unfolding ParseInUTC_def by (rule parseTimestamp_isTS_calls [OF ts])
  show "fst (ParseInLocation tp s loc c) = [CallUnix]"
    unfolding ParseInLocation_def by (rule parseTimestamp_isTS_calls [OF ts])
next
  assume h: "list_all ascii_digit (TrimSpace s)
        \<and> (length (TrimSpace s) = 8 \<or> length (TrimSpace s) = 14)"
  then have ts: "\<not> isTS (TrimSpace s)"
    by (auto simp: isTS_def)
  show "\<exists>rest. fst (ParseInUTC tp s c) = CallISO # rest"
    unfolding ParseInUTC_def by (rule parseTimestamp_not_isTS [OF ts])
  show "\<exists>rest. fst (ParseInLocation tp s loc c) = CallISO # rest"
    unfolding ParseInLocation_def by (rule parseTimestamp_not_isTS [OF ts])
qed

theorem C1_numeric_candidates_witness:
  "fst (ParseInUTC no_layout ''1136214245'' []) = [CallUnix]
   \<and> fst (ParseInLocation no_layout ''1136214245'' (Zone ''MST'') []) = [CallUnix]
   \<and> (\<exists>rest. fst (ParseInUTC no_layout ''20060102'' []) = CallISO # rest)
   \<and> (\<exists>rest. fst (ParseInLocation no_layout ''20060102'' (Zone ''MST'') []) = CallISO # rest)"
proof -
  have a: "spec_reDigits (TrimSpace ''1136214245'') \<and> 2 \<le> length (TrimSpace ''1136214245'')
      \<and> length (TrimSpace ''1136214245'') \<noteq> 8 \<and> length (TrimSpace ''1136214245'') \<noteq> 14"
    by code_simp
  have b: "list_all ascii_digit (TrimSpace ''20060102'')
        \<and> (length (TrimSpace ''20060102'') = 8 \<or> length (TrimSpace ''20060102'') = 14)"
    by code_simp
  from a b
    C1_numeric_candidates_go_to_unix [of "''1136214245''" no_layout "[]" "Zone ''MST''"]
    C1_numeric_candidates_go_to_unix [of "''20060102''" no_layout "[]" "Zone ''MST''"]
  show ?thesis by blast
qed

text \<open>
  C1 as stated fails at \<open>"5"\<close>: the string matches \<open>^\d+(\.\d+)?$\<close> and is one byte long,
  yet the first parser called is the ISO scanner and the Unix decoder is never called.
\<close>

theorem C1_single_digit_counterexample:
  "spec_reDigits (TrimSpace ''5'')
   \<and> length (TrimSpace ''5'') \<noteq> 8 \<and> length (TrimSpace ''5'') \<noteq> 14
   \<and> hd (fst (ParseInUTC no_layout ''5'' [])) = CallISO
   \<and> CallUnix \<notin> set (fst (ParseInUTC no_layout ''5'' []))"
  by code_simp

text \<open>
  C10. For an input whose trimmed form is a numeric candidate, \<open>ParseISOInUTC\<close> and
  \<open>ParseISOInLocation\<close> call no parser at all and return the error "Could not parse as
  ISO timestamp"; the cache is left as it was. The 18 digits \<open>200601021504051234\<close> are
  such an input, and \<open>ParseISOTimestamp\<close> itself parses them.
\<close>

theorem C10_iso_only_rejects_numeric_candidates:
  "(isTS (TrimSpace s)
    \<longrightarrow> ParseISOInUTC tp s c = ([], Inl (ErrNotISO (TrimSpace s)), c)
      \<and> ParseISOInLocation tp s loc c = ([], Inl (ErrNotISO (TrimSpace s)), c))
   \<and> isTS (TrimSpace ''200601021504051234'')
   \<and> ParseISOTimestamp ''200601021504051234'' UTC []
       = (Inr (Date 2006 1 2 15 4 5 123400000 UTC), [])"
proof (intro conjI impI)
  assume ts: "isTS (TrimSpace s)"
  show "ParseISOInUTC tp s c = ([], Inl (ErrNotISO (TrimSpace s)), c)"
    unfolding ParseISOInUTC_def by (simp add: parseTimestamp_isTS [OF ts])
  show "ParseISOInLocation tp s loc c = ([], Inl (ErrNotISO (TrimSpace s)), c)"
    unfolding ParseISOInLocation_def by (simp add: parseTimestamp_isTS [OF ts])
next
  show "isTS (TrimSpace ''200601021504051234'')"
    by code_simp
  show "ParseISOTimestamp ''200601021504051234'' UTC []
       = (Inr (Date 2006 1 2 15 4 5 123400000 UTC), [])"
    by code_simp
qed

theorem C10_iso_only_witness:
  "isTS (TrimSpace ''200601021504051234'')
   \<and> ParseISOInUTC no_layout ''200601021504051234'' []
       = ([], Inl (ErrNotISO (TrimSpace ''200601021504051234'')), [])
   \<and> ParseISOInLocation no_layout ''200601021504051234'' (Zone ''MST'') []
       = ([], Inl (ErrNotISO (TrimSpace ''200601021504051234'')), [])"
  using C10_iso_only_rejects_numeric_candidates
          [of "''200601021504051234''" no_layout "[]" "Zone ''MST''"]
  by blast


section \<open>The Unix decoder\<close>

lemma ParseUnixTS_rejects:
  assumes "length s \<le> 6 \<or> \<not> spec_reDigits s"
  shows "ParseUnixTS s = Inl (ErrParseUnixTS s)"
  using assms by (auto simp: ParseUnixTS_def Let_def reDigits_iff_spec)

lemma ParseUnixTS_seconds: "ParseUnixTS ''1136214245'' = Inr (Unix 1136214245 (Nanos 0))"
  by code_simp

lemma toSend_short: "length s \<le> 10 \<Longrightarrow> toSend s = Inr s"
  by (simp add: toSend_def Let_def)

lemma toSend_long:
  assumes "12 \<le> length s"
  shows "toSend s = Inr (take 10 s @ ''.'' @ take (length s - 12) (drop 11 s))"
  using assms by (simp add: toSend_def slice_def Let_def)

lemma toSend_eleven: "length s = 11 \<Longrightarrow> toSend s = Inl (PanicSliceBounds 11 10)"
  by (simp add: toSend_def slice_def Let_def)

text \<open>
  C2 at the failing input. \<open>"123456789.1"\<close> matches the pattern and holds ten digits and a
  dot, eleven bytes: \<open>ParseUnixTS\<close> takes the slicing branch and \<open>timeStr[11:10]\<close> panics.
  Sent through unchanged, the same string decodes to 123456789 seconds and the fraction
  \<open>1\<close>. A dotted input that is longer loses its last digit: for
  \<open>"1136073600.000000001"\<close> the fraction handed on is \<open>00000000\<close>.
\<close>

theorem C2_dotted_input_is_resliced:
  "reDigits ''123456789.1'' \<and> length ''123456789.1'' = 11
   \<and> ParseUnixTS ''123456789.1'' = Inl (PanicSliceBounds 11 10)
   \<and> parseUnixTS ''123456789.1'' = Inr (123456789, ScaledFloat 1 8)
   \<and> toSend ''1136073600.000000001'' = Inr ''1136073600.00000000''
   \<and> ParseUnixTS ''1136073600.000000001'' = Inr (Unix 1136073600 (ScaledFloat 0 1))"
  by code_simp

section \<open>The scanner at the inputs where it leaves the specification\<close>

text \<open>
  C5 at the failing input. In \<open>"20060102T150405+01Z"\<close> the \<open>Z\<close> comes in the zone section
  after the digits \<open>01\<close>: the four zeros are appended to them, the zone digits are
  \<open>010000\<close> and the result is one hour east of UTC, not UTC.
\<close>

theorem C5_zulu_appends_to_zone_digits:
  "zonePart (after_loop (scan_run (range_string ''20060102T150405+01Z'') init_scan))
     = [ru CHR ''0'', ru CHR ''1'', ru CHR ''0'', ru CHR ''0'', ru CHR ''0'', ru CHR ''0'']
   \<and> fst (ParseISOTimestamp ''20060102T150405+01Z'' UTC [])
     = Inr (Date 2006 1 2 15 4 5 0 (FixedZone ''FixedZone'' 3600))"
  by code_simp

text \<open>
  C3 at the failing input. In \<open>"20060102T150405+003Z"\<close> the zone digits after the scan are
  \<open>0030000\<close>; the minutes are decoded from all of \<open>zonePart[2:]\<close>, that is 30000, and the
  parse fails on the quarter-hour test although \<open>zone[2:4]\<close> is \<open>30\<close>.
\<close>

theorem C3_minutes_from_overlong_zone:
  "zonePart (after_loop (scan_run (range_string ''20060102T150405+003Z'') init_scan))
     = [ru CHR ''0'', ru CHR ''0'', ru CHR ''3'', ru CHR ''0'', ru CHR ''0'',
        ru CHR ''0'', ru CHR ''0'']
   \<and> fst (ParseISOTimestamp ''20060102T150405+003Z'' UTC []) = Inl (ErrOffsetMinutes 30000)"
  by code_simp

text \<open>
  C4 at the failing input. \<open>"20060102T150405.123456789+0100"\<close> holds no \<open>-\<close>. Its ninth
  subsecond digit moves the scanner to the zone section, so the \<open>+\<close> is not in the
  subsecond section and is ignored; \<open>offsetPositive\<close> keeps its initial value and the
  offset is one hour west of UTC.
\<close>

theorem C4_plus_after_nine_subsecond_digits:
  "CHR ''-'' \<notin> set ''20060102T150405.123456789+0100''
   \<and> \<not> offsetPositive
         (after_loop (scan_run (range_string ''20060102T150405.123456789+0100'') init_scan))
   \<and> fst (ParseISOTimestamp ''20060102T150405.123456789+0100'' UTC [])
     = Inr (Date 2006 1 2 15 4 5 123456789 (FixedZone ''FixedZone'' (- 3600)))"
  by code_simp

section \<open>The offset cache\<close>

lemma LocationFromOffset_miss:
  "off \<notin> fst ` set c \<Longrightarrow>
     LocationFromOffset off c
       = (FixedZone ''FixedZone'' off, c @ [(off, FixedZone ''FixedZone'' off)])"
proof -
  assume "off \<notin> fst ` set c"
  then have "map_of c off = None"
    by (simp add: map_of_eq_None_iff)
  then show ?thesis
    by (simp add: LocationFromOffset_def Let_def)
qed

lemma LocationFromOffset_equal_zone:
  assumes "well_formed c"
  shows "fst (LocationFromOffset off c) = FixedZone ''FixedZone'' off
         \<and> well_formed (snd (LocationFromOffset off c))"
proof (cases "map_of c off")
  case None
  with assms show ?thesis
    by (simp add: LocationFromOffset_def well_formed_def Let_def)
next
  case (Some l)
  then have "(off, l) \<in> set c"
    by (rule map_of_SomeD)
  with assms have "l = FixedZone ''FixedZone'' off"
    by (auto simp: well_formed_def list_all_iff)
  with Some assms show ?thesis
    by (simp add: LocationFromOffset_def well_formed_def)
qed

lemma LocationFromOffset_hit_resets:
  assumes "map_of c off = Some l"
  shows "snd (LocationFromOffset off c) = (if length c > 50 then [] else c)"
  using assms by (simp add: LocationFromOffset_def)

lemma lookup_all_misses:
  assumes "distinct offs" and "set offs \<inter> fst ` set c = {}"
  shows "lookup_all offs c = c @ map (\<lambda>off. (off, FixedZone ''FixedZone'' off)) offs"
  using assms
proof (induction offs arbitrary: c)
  case Nil
  then show ?case by simp
next
  case (Cons off offs)
  from Cons.prems have miss: "off \<notin> fst ` set c"
    by auto
  let ?c = "c @ [(off, FixedZone ''FixedZone'' off)]"
  from Cons.prems have "distinct offs" and "set offs \<inter> fst ` set ?c = {}"
    by auto
  then have "lookup_all offs ?c = ?c @ map (\<lambda>off. (off, FixedZone ''FixedZone'' off)) offs"
    by (rule Cons.IH)
  then show ?case
    by (simp add: LocationFromOffset_miss [OF miss])
qed

text \<open>
  C6 on the code. The size is tested only when a lookup hits; a lookup that misses
  inserts without a test. So lookups of pairwise different offsets, from the empty
  cache, leave one entry each, however many they are: the cache is not bounded by 50.
\<close>

theorem C6_distinct_offsets_grow_cache:
  "distinct offs \<Longrightarrow> length (lookup_all offs []) = length offs"
  by (simp add: lookup_all_misses)

theorem C6_sixty_offsets_witness:
  "distinct (map int [0..<60]) \<and> length (lookup_all (map int [0..<60]) []) = 60"
proof -
  have d: "distinct (map int [0..<60])"
    by (simp add: distinct_map)
  from d C6_distinct_offsets_grow_cache [OF d] show ?thesis
    by simp
qed


section \<open>Invariants of the scanning loop\<close>

lemmas maxes = yearMax_def monthMax_def dayMax_def hourMax_def minuteMax_def secondMax_def
  subsecondMax_def zoneMax_def

lemma seq_inv_init: "seq_inv init_scan"
  by (simp add: seq_inv_def init_scan_def)

lemma short_not_one: "length xs < 2 \<Longrightarrow> length xs \<noteq> Suc 0 \<Longrightarrow> xs = []"
  by (cases xs) auto

lemma digit_inv: "seq_inv st \<Longrightarrow> seq_inv (digit i r st)"
  by (cases "currentSection st")
     (auto simp: digit_def addIf_def seq_inv_def filled6_def note_unparsed_def Let_def maxes
           dest: short_not_one)


lemma note_unparsed_inv: "seq_inv st \<Longrightarrow> seq_inv (note_unparsed i r st)"
  by (cases "currentSection st") (simp_all add: seq_inv_def filled6_def note_unparsed_def)

lemma sign_inv:
  "seq_inv st \<Longrightarrow> currentSection st = subsecondSection
     \<Longrightarrow> seq_inv (st\<lparr>offsetPositive := b, currentSection := zoneSection\<rparr>)"
  by (simp add: seq_inv_def filled6_def)

lemma step_Next_inv:
  assumes "seq_inv st" and "step i r st = Next st'"
  shows "seq_inv st'"
proof -
  from assms(2) have "st' = digit i r st \<or> st' = st \<or> st' = note_unparsed i r st
      \<or> (currentSection st = subsecondSection
          \<and> st' = st\<lparr>offsetPositive := (r = ru CHR ''+''), currentSection := zoneSection\<rparr>)"
    by (auto simp: step_def split: if_splits)
  with assms(1) show ?thesis
    by (auto simp: digit_inv note_unparsed_inv sign_inv)
qed

lemma step_Break_filled:
  assumes "seq_inv st" and "step i r st = Break st'"
  shows "filled6 st' \<and> unparsed st' = unparsed st"
proof -
  from assms(2) have sec: "currentSection st = zoneSection \<or> currentSection st = subsecondSection"
    and st': "st' = st\<lparr>zonePart := zonePart st
                 @ [ru CHR ''0'', ru CHR ''0'', ru CHR ''0'', ru CHR ''0'']\<rparr>"
    by (auto simp: step_def split: if_splits)
  from assms(1) sec have "filled6 st"
    by (auto simp: seq_inv_def)
  with st' show ?thesis
    by (simp add: filled6_def)
qed

lemma seq_inv_ordered: "seq_inv st \<Longrightarrow> ordered_fill st"
  by (cases "currentSection st") (auto simp: seq_inv_def ordered_fill_def filled6_def)

lemma filled6_ordered: "filled6 st \<Longrightarrow> ordered_fill st"
  by (simp add: ordered_fill_def filled6_def)

lemma scan_run_ordered: "seq_inv st \<Longrightarrow> ordered_fill (after_loop (scan_run rs st))"
proof (induction rs arbitrary: st)
  case Nil
  then show ?case
    by (simp add: after_loop_def seq_inv_ordered)
next
  case (Cons p rs)
  obtain i r where p: "p = (i, r)"
    by (cases p)
  show ?case
  proof (cases "step i r st")
    case (Next st')
    with Cons.prems have "seq_inv st'"
      by (auto dest: step_Next_inv)
    then have "ordered_fill (after_loop (scan_run rs st'))"
      by (rule Cons.IH)
    with Next p show ?thesis
      by simp
  next
    case (Break st')
    with Cons.prems have "filled6 st'"
      by (auto dest: step_Break_filled)
    with Break p show ?thesis
      by (simp add: after_loop_def filled6_ordered)
  qed
qed

lemma scanned_ordered: "ordered_fill (after_loop (scan_run (range_string s) init_scan))"
  by (rule scan_run_ordered [OF seq_inv_init])

section \<open>Dates without a time\<close>

lemma ParseISOTimestamp_scanned:
  "ParseISOTimestamp s loc c =
     (if length s > 35 then (Inl (ErrTooLong (take 35 s) (length s)), c)
      else if unparsed (scanned s) \<noteq> [] then (Inl (ErrUnparsed (unparsed (scanned s)) s), c)
      else after_scan (scanned s) loc c)"
  by (simp add: ParseISOTimestamp_def scanned_def maxLength_def Let_def)

lemma scanned_ordered_fill: "ordered_fill (scanned s)"
  unfolding scanned_def by (rule scanned_ordered)

lemma after_scan_date_only:
  assumes "hourPart st = []" "minutePart st = []" "secondPart st = []"
    and "subsecondPart st = []" "zonePart st = []"
  shows "after_scan st loc c =
     (if length (yearPart st) \<noteq> 4 then (Inl (ErrFieldLength Year), c)
      else if length (monthPart st) \<noteq> 2 then (Inl (ErrFieldLength Month), c)
      else if length (dayPart st) \<noteq> 2 then (Inl (ErrFieldLength Day), c)
      else case decode4 (yearPart st) of Inl e \<Rightarrow> (Inl e, c) | Inr y \<Rightarrow>
        (case decode2 (monthPart st) of Inl e \<Rightarrow> (Inl e, c) | Inr m \<Rightarrow>
          (case decode2 (dayPart st) of Inl e \<Rightarrow> (Inl e, c) | Inr d \<Rightarrow>
            (Inr (Date y m d 0 0 0 0 loc), c))))"
  using assms
  by (simp add: after_scan_def zone_check_def decode2_def decode_subseconds_def
        resolve_zone_def isZero_def maxes Let_def split: sum.splits)

lemma after_scan_zero_time:
  assumes "hourPart st = zeros2" "minutePart st = zeros2" "secondPart st = zeros2"
    and "subsecondPart st = []" "zonePart st = []"
  shows "after_scan st loc c =
     (if length (yearPart st) \<noteq> 4 then (Inl (ErrFieldLength Year), c)
      else if length (monthPart st) \<noteq> 2 then (Inl (ErrFieldLength Month), c)
      else if length (dayPart st) \<noteq> 2 then (Inl (ErrFieldLength Day), c)
      else case decode4 (yearPart st) of Inl e \<Rightarrow> (Inl e, c) | Inr y \<Rightarrow>
        (case decode2 (monthPart st) of Inl e \<Rightarrow> (Inl e, c) | Inr m \<Rightarrow>
          (case decode2 (dayPart st) of Inl e \<Rightarrow> (Inl e, c) | Inr d \<Rightarrow>
            (Inr (Date y m d 0 0 0 0 loc), c))))"
  using assms
  by (simp add: after_scan_def zone_check_def decode2_def decode_subseconds_def
        resolve_zone_def isZero_def maxes zeros2_def Let_def split: sum.splits)

lemma after_scan_time_missing:
  assumes "\<not> (hourPart st = [] \<and> minutePart st = [] \<and> secondPart st = [])"
    and "length (yearPart st) = 4" "length (monthPart st) = 2" "length (dayPart st) = 2"
    and "zonePart st = []"
  shows "length (hourPart st) \<noteq> 2 \<Longrightarrow> after_scan st loc c = (Inl (ErrFieldLength Hour), c)"
    and "length (hourPart st) = 2 \<Longrightarrow> length (minutePart st) \<noteq> 2
           \<Longrightarrow> after_scan st loc c = (Inl (ErrFieldLength Minute), c)"
    and "length (hourPart st) = 2 \<Longrightarrow> length (minutePart st) = 2
           \<Longrightarrow> length (secondPart st) \<noteq> 2
           \<Longrightarrow> after_scan st loc c = (Inl (ErrFieldLength Second), c)"
  using assms
  by (auto simp: after_scan_def zone_check_def maxes Let_def)

text \<open>
  C9. Take an input of at most 35 bytes in which the scan leaves no unparsed rune.
  If the hour, minute and second buffers are all empty, the parse gives what it gives
  with all three buffers set to \<open>00\<close>, and a time it returns is at 00:00:00.0 in the
  caller's location. If one of the three is not empty, none is filled in: the first of
  hour, minute and second that lacks a digit is reported as the field of wrong length.
  \<open>"20060102"\<close> with UTC as default is 2006-01-02T00:00:00 UTC.
\<close>

theorem C9_time_defaults_all_or_nothing:
  "(length s \<le> 35 \<and> unparsed (scanned s) = [] \<longrightarrow>
      (hourPart (scanned s) = [] \<and> minutePart (scanned s) = [] \<and> secondPart (scanned s) = []
         \<longrightarrow> ParseISOTimestamp s loc c
               = after_scan ((scanned s)\<lparr>hourPart := zeros2, minutePart := zeros2,
                                secondPart := zeros2\<rparr>) loc c
             \<and> (\<forall>t. fst (ParseISOTimestamp s loc c) = Inr t
                    \<longrightarrow> (\<exists>y m d. t = Date y m d 0 0 0 0 loc)))
      \<and> (\<not> (hourPart (scanned s) = [] \<and> minutePart (scanned s) = []
              \<and> secondPart (scanned s) = [])
         \<longrightarrow> (length (hourPart (scanned s)) \<noteq> 2
                \<longrightarrow> ParseISOTimestamp s loc c = (Inl (ErrFieldLength Hour), c))
             \<and> (length (hourPart (scanned s)) = 2 \<and> length (minutePart (scanned s)) \<noteq> 2
                \<longrightarrow> ParseISOTimestamp s loc c = (Inl (ErrFieldLength Minute), c))
             \<and> (length (hourPart (scanned s)) = 2 \<and> length (minutePart (scanned s)) = 2
                  \<and> length (secondPart (scanned s)) \<noteq> 2
                \<longrightarrow> ParseISOTimestamp s loc c = (Inl (ErrFieldLength Second), c))))
   \<and> ParseISOTimestamp ''20060102'' UTC [] = (Inr (Date 2006 1 2 0 0 0 0 UTC), [])"
proof (intro conjI impI)
  show "ParseISOTimestamp ''20060102'' UTC [] = (Inr (Date 2006 1 2 0 0 0 0 UTC), [])"
    by code_simp
next
  assume pre: "length s \<le> 35 \<and> unparsed (scanned s) = []"
  then have P: "ParseISOTimestamp s loc c = after_scan (scanned s) loc c"
    by (simp add: ParseISOTimestamp_scanned)
  note ord = scanned_ordered_fill [of s]
  {
    assume empty: "hourPart (scanned s) = [] \<and> minutePart (scanned s) = []
        \<and> secondPart (scanned s) = []"
    with ord have rest: "subsecondPart (scanned s) = []" "zonePart (scanned s) = []"
      by (auto simp: ordered_fill_def)
    let ?st' = "(scanned s)\<lparr>hourPart := zeros2, minutePart := zeros2, secondPart := zeros2\<rparr>"
    have a: "after_scan (scanned s) loc c = after_scan ?st' loc c"
      using empty rest
      by (simp add: after_scan_date_only [of "scanned s"] after_scan_zero_time [of ?st']
            cong: sum.case_cong)
    with P show "ParseISOTimestamp s loc c = after_scan ?st' loc c"
      by simp
    show "\<forall>t. fst (ParseISOTimestamp s loc c) = Inr t \<longrightarrow> (\<exists>y m d. t = Date y m d 0 0 0 0 loc)"
      using empty rest
      by (auto simp: P after_scan_date_only [of "scanned s"] split: if_splits sum.splits)
  }
  {
    assume some: "\<not> (hourPart (scanned s) = [] \<and> minutePart (scanned s) = []
              \<and> secondPart (scanned s) = [])"
    with ord have ymd: "length (yearPart (scanned s)) = 4" "length (monthPart (scanned s)) = 2"
        "length (dayPart (scanned s)) = 2"
      by (auto simp: ordered_fill_def split: if_splits)
    {
      assume "length (hourPart (scanned s)) \<noteq> 2"
      moreover from this ord have "zonePart (scanned s) = []"
        by (auto simp: ordered_fill_def split: if_splits)
      ultimately show "ParseISOTimestamp s loc c = (Inl (ErrFieldLength Hour), c)"
        using some ymd by (simp add: P after_scan_time_missing(1))
    }
    {
      assume h: "length (hourPart (scanned s)) = 2 \<and> length (minutePart (scanned s)) \<noteq> 2"
      with ord have "zonePart (scanned s) = []"
        by (auto simp: ordered_fill_def split: if_splits)
      with h show "ParseISOTimestamp s loc c = (Inl (ErrFieldLength Minute), c)"
        using some ymd by (simp add: P after_scan_time_missing(2))
    }
    {
      assume h: "length (hourPart (scanned s)) = 2 \<and> length (minutePart (scanned s)) = 2
                  \<and> length (secondPart (scanned s)) \<noteq> 2"
      with ord have "zonePart (scanned s) = []"
        by (auto simp: ordered_fill_def split: if_splits)
      with h show "ParseISOTimestamp s loc c = (Inl (ErrFieldLength Second), c)"
        using some ymd by (simp add: P after_scan_time_missing(3))
    }
  }
qed

theorem C9_time_defaults_witness:
  "length ''20060102'' \<le> 35 \<and> unparsed (scanned ''20060102'') = []
   \<and> hourPart (scanned ''20060102'') = [] \<and> minutePart (scanned ''20060102'') = []
   \<and> secondPart (scanned ''20060102'') = []
   \<and> ParseISOTimestamp ''20060102'' (Zone ''MST'') []
       = after_scan ((scanned ''20060102'')\<lparr>hourPart := zeros2, minutePart := zeros2,
                        secondPart := zeros2\<rparr>) (Zone ''MST'') []
   \<and> length (hourPart (scanned ''200601021'')) = 1
   \<and> ParseISOTimestamp ''200601021'' UTC [] = (Inl (ErrFieldLength Hour), [])
   \<and> length (hourPart (scanned ''2006010215'')) = 2 \<and> minutePart (scanned ''2006010215'') = []
   \<and> ParseISOTimestamp ''2006010215'' UTC [] = (Inl (ErrFieldLength Minute), [])
   \<and> length (minutePart (scanned ''200601021504'')) = 2
   \<and> secondPart (scanned ''200601021504'') = []
   \<and> ParseISOTimestamp ''200601021504'' UTC [] = (Inl (ErrFieldLength Second), [])"
proof -
  have a: "length ''20060102'' \<le> 35 \<and> unparsed (scanned ''20060102'') = []
      \<and> hourPart (scanned ''20060102'') = [] \<and> minutePart (scanned ''20060102'') = []
      \<and> secondPart (scanned ''20060102'') = []"
    by code_simp
  have b: "length ''200601021'' \<le> 35 \<and> unparsed (scanned ''200601021'') = []
      \<and> length (hourPart (scanned ''200601021'')) = 1"
    by code_simp
  have c: "length ''2006010215'' \<le> 35 \<and> unparsed (scanned ''2006010215'') = []
      \<and> length (hourPart (scanned ''2006010215'')) = 2
      \<and> minutePart (scanned ''2006010215'') = []"
    by code_simp
  have d: "length ''200601021504'' \<le> 35 \<and> unparsed (scanned ''200601021504'') = []
      \<and> length (hourPart (scanned ''200601021504'')) = 2
      \<and> length (minutePart (scanned ''200601021504'')) = 2
      \<and> secondPart (scanned ''200601021504'') = []"
    by code_simp
  have a': "ParseISOTimestamp ''20060102'' (Zone ''MST'') []
       = after_scan ((scanned ''20060102'')\<lparr>hourPart := zeros2, minutePart := zeros2,
                        secondPart := zeros2\<rparr>) (Zone ''MST'') []"
    using a C9_time_defaults_all_or_nothing [of "''20060102''" "Zone ''MST''" "[]"]
    by blast
  have b': "ParseISOTimestamp ''200601021'' UTC [] = (Inl (ErrFieldLength Hour), [])"
    using b C9_time_defaults_all_or_nothing [of "''200601021''" UTC "[]"]
    by force
  have c': "ParseISOTimestamp ''2006010215'' UTC [] = (Inl (ErrFieldLength Minute), [])"
    using c C9_time_defaults_all_or_nothing [of "''2006010215''" UTC "[]"]
    by force
  have d': "ParseISOTimestamp ''200601021504'' UTC [] = (Inl (ErrFieldLength Second), [])"
    using d C9_time_defaults_all_or_nothing [of "''200601021504''" UTC "[]"]
    by force
  from a b c d a' b' c' d' show ?thesis
    by blast
qed


section \<open>Unparsed runes\<close>

lemma never_parsed_offends: "never_parsed r \<Longrightarrow> offends st r"
  by (simp add: never_parsed_def offends_def)




lemma step_Break_zulu:
  assumes "step i r st = Break st'"
  shows "ToUpper_is r CHR ''Z''
         \<and> (currentSection st = zoneSection \<or> currentSection st = subsecondSection)"
  using assms by (auto simp: step_def split: if_splits)



lemma scan_run_Break_zulu:
  assumes "scan_run rs st = Break st'"
  shows "\<exists>pre i r post st0. rs = pre @ (i, r) # post \<and> scan_run pre st = Next st0
           \<and> ToUpper_is r CHR ''Z''
           \<and> (currentSection st0 = zoneSection \<or> currentSection st0 = subsecondSection)"
  using assms
proof (induction rs arbitrary: st)
  case Nil
  then show ?case by simp
next
  case (Cons p rs)
  obtain i r where p: "p = (i, r)"
    by (cases p)
  show ?case
  proof (cases "step i r st")
    case (Break st1)
    then have "ToUpper_is r CHR ''Z''
         \<and> (currentSection st = zoneSection \<or> currentSection st = subsecondSection)"
      by (rule step_Break_zulu)
    then have "p # rs = [] @ (i, r) # rs \<and> scan_run [] st = Next st
           \<and> ToUpper_is r CHR ''Z''
           \<and> (currentSection st = zoneSection \<or> currentSection st = subsecondSection)"
      by (simp add: p)
    then show ?thesis
      by blast
  next
    case (Next st1)
    with Cons.prems p have "scan_run rs st1 = Break st'"
      by simp
    from Cons.IH [OF this] obtain pre j q post st0 where
      *: "rs = pre @ (j, q) # post" "scan_run pre st1 = Next st0" "ToUpper_is q CHR ''Z''"
         "currentSection st0 = zoneSection \<or> currentSection st0 = subsecondSection"
      by blast
    from * Next p have "p # rs = (p # pre) @ (j, q) # post \<and> scan_run (p # pre) st = Next st0"
      by simp
    with * show ?thesis
      by blast
  qed
qed





end
